theory Spec2Isabelle
  imports
    Complex_Main
    "HOL-Library.Char_ord"
    "HOL-Library.List_Lexorder"
    "HOL-Library.Product_Lexorder"
begin

section \<open>The AERA level-3 nightly pipeline (scripts/nightly-level3-pipeline.py)\<close>

text \<open>
  A shallow embedding of the nightly pipeline. Python floats are modelled as exact reals
  (every coefficient is a short decimal and every result is rounded to four decimals or
  truncated to an integer); JSON \<open>null\<close> is \<open>None\<close>; an exception is the \<open>Inl\<close> of a sum whose
  payload is the exception's message; the collaborators reached over the network and the
  fitted scikit-learn models are fields of an environment record, so that every answer and
  every failure they can give is an input of the model. What the run prints to stdout is
  left out; what it prints to stderr is part of its outcome.
\<close>

subsection \<open>Values and rows\<close>

type_synonym err = string

text \<open>
  The values a region key can hold once it is a cell of a data frame or of a decoded JSON
  row: Python's \<open>None\<close>, the float \<open>nan\<close>, or a string.
\<close>

datatype pyval = PyNone | PyNaN | PyStr string

text \<open>Truthiness as Python's \<open>or\<close> tests it: \<open>None\<close> and \<open>""\<close> are false, \<open>nan\<close> is a non-zero float.\<close>

fun truthy :: "pyval \<Rightarrow> bool" where
  "truthy PyNone = False"
| "truthy PyNaN = True"
| "truthy (PyStr s) = (s \<noteq> [])"

definition py_or :: "pyval \<Rightarrow> pyval \<Rightarrow> pyval" where
  "py_or a b = (if truthy a then a else b)"

text \<open>A decoded JSON cell: \<open>null\<close> is \<open>None\<close>.\<close>

definition json_val :: "string option \<Rightarrow> pyval" where
  "json_val v = (case v of None \<Rightarrow> PyNone | Some s \<Rightarrow> PyStr s)"

text \<open>One row of \<open>vulnerability_profiles\<close> as \<open>client.select\<close> returns it (line 172).\<close>

record profile =
  profile_id :: string
  organization_id :: "string option"
  county_id :: "string option"
  state_id :: "string option"
  household_size :: "real option"
  medication_dependency :: "bool option"
  insulin_dependency :: "bool option"
  oxygen_powered_device :: "bool option"
  mobility_limitation :: "bool option"
  transportation_access :: "bool option"
  financial_strain :: "bool option"
  risk_score :: "real option"
  updated_at :: "string option"

text \<open>One row of \<open>region_snapshots\<close> as the prior-period select returns it (line 215).\<close>

record stored_snapshot =
  prev_county_id :: "string option"
  prev_state_id :: "string option"
  prev_avg_risk_score :: "real option"
  prev_snapshot_date :: int

subsection \<open>Series helpers\<close>

definition fillna :: "'a \<Rightarrow> 'a option \<Rightarrow> 'a" where
  "fillna d v = (case v of None \<Rightarrow> d | Some x \<Rightarrow> x)"

text \<open>\<open>astype(int)\<close> of a Boolean column, read as a number.\<close>

definition astype_int :: "bool \<Rightarrow> real" where
  "astype_int b = (if b then 1 else 0)"

text \<open>Rounding to the nearest integer, ties to the even one (numpy's and Python's rule).\<close>

definition round_half_even :: "real \<Rightarrow> int" where
  "round_half_even y =
     (let f = \<lfloor>y\<rfloor>; d = y - of_int f
      in if d < 1 / 2 then f
         else if 1 / 2 < d then f + 1
         else if even f then f else f + 1)"

definition round4 :: "real \<Rightarrow> real" where
  "round4 x = of_int (round_half_even (x * 10000)) / 10000"

text \<open>Python's \<open>int(x)\<close> of a float: truncation towards zero.\<close>

definition py_int :: "real \<Rightarrow> int" where
  "py_int x = (if 0 \<le> x then \<lfloor>x\<rfloor> else \<lceil>x\<rceil>)"

definition mean :: "real list \<Rightarrow> real" where
  "mean xs = sum_list xs / real (length xs)"

subsection \<open>Risk scorer (lines 87-99)\<close>

text \<open>
  The dtype of a Boolean factor column as \<open>DataFrame.from_records\<close> builds it from the decoded
  rows: \<open>bool\<close> when every row has a value, \<open>object\<close> as soon as one row is null. \<open>fillna\<close>
  fills the nulls and leaves the dtype as it is.
\<close>

datatype dtype = BoolColumn | ObjectColumn

definition column_dtype :: "bool option list \<Rightarrow> dtype" where
  "column_dtype col = (if None \<in> set col then ObjectColumn else BoolColumn)"

text \<open>
  \<open>(~column).astype(int)\<close> of a filled column, for one element: on a \<open>bool\<close> column \<open>~\<close> is
  negation; on an \<open>object\<close> column it is Python's \<open>~\<close> of each element, the integer
  inversion, for which \<open>~True\<close> is \<open>-2\<close> and \<open>~False\<close> is \<open>-1\<close>.
\<close>

definition invert_astype_int :: "dtype \<Rightarrow> bool \<Rightarrow> real" where
  "invert_astype_int d v =
     (case d of
        BoolColumn \<Rightarrow> astype_int (\<not> v)
      | ObjectColumn \<Rightarrow> (if v then - 2 else - 1))"

text \<open>
  One row of the vectorized computation, given the dtype of the batch's
  \<open>transportation_access\<close> column; \<open>np.clip(x, 1, None)\<close> is the maximum with 1.
\<close>

definition calculate_risk_row :: "dtype \<Rightarrow> profile \<Rightarrow> real" where
  "calculate_risk_row d p =
     (let household_component = max (fillna 1 (household_size p)) 1 * 0.4;
          household_component = min household_component 3.2
      in round4
           (household_component
            + astype_int (fillna False (medication_dependency p)) * 1.8
            + astype_int (fillna False (insulin_dependency p)) * 2.2
            + astype_int (fillna False (oxygen_powered_device p)) * 2.5
            + astype_int (fillna False (mobility_limitation p)) * 1.5
            + invert_astype_int d (fillna True (transportation_access p)) * 1.2
            + astype_int (fillna False (financial_strain p)) * 1.4))"

definition calculate_risk :: "profile list \<Rightarrow> real list" where
  "calculate_risk df =
     (let d = column_dtype (map transportation_access df)
      in map (calculate_risk_row d) df)"

text \<open>
  The specification's wording of the same score, on the defaulted fields, with the
  Boolean factors as the numbers 0 and 1.
\<close>

definition spec_risk_score ::
  "real \<Rightarrow> real \<Rightarrow> real \<Rightarrow> real \<Rightarrow> real \<Rightarrow> real \<Rightarrow> real \<Rightarrow> real" where
  "spec_risk_score hs medication insulin oxygen_device mobility transport strain =
     round4 (min (max hs 1 * 0.4) 3.2 + 1.8 * medication + 2.2 * insulin
             + 2.5 * oxygen_device + 1.5 * mobility + 1.2 * (1 - transport)
             + 1.4 * strain)"

subsection \<open>Drift classification (lines 102-107)\<close>

definition classify_drift :: "real \<Rightarrow> string" where
  "classify_drift v =
     (if v > 0.25 then ''ACCELERATING''
      else if v > 0.15 then ''ESCALATING''
      else ''STABLE'')"

subsection \<open>Feature matrix (lines 110-122) and its standardization (line 191)\<close>

definition prepare_features_row :: "profile \<Rightarrow> real list" where
  "prepare_features_row p =
     [fillna 0 (risk_score p),
      fillna 1 (household_size p),
      astype_int (fillna False (medication_dependency p)),
      astype_int (fillna False (insulin_dependency p)),
      astype_int (fillna False (oxygen_powered_device p)),
      astype_int (fillna False (mobility_limitation p)),
      astype_int (fillna True (transportation_access p)),
      astype_int (fillna False (financial_strain p))]"

definition prepare_features :: "profile list \<Rightarrow> real list list" where
  "prepare_features df = map prepare_features_row df"

definition column :: "nat \<Rightarrow> real list list \<Rightarrow> real list" where
  "column j X = map (\<lambda>r. r ! j) X"

text \<open>
  Modelled from the spec: \<open>StandardScaler().fit_transform\<close> (line 191) is scikit-learn's, and
  its code is not part of the repository. Section 4.2 of the specification gives its
  contract: every column has its mean subtracted and is divided by its standard deviation,
  the population one (the sum of squares is divided by the number of rows).
\<close>

definition pvariance :: "real list \<Rightarrow> real" where
  "pvariance xs = mean (map (\<lambda>x. (x - mean xs)\<^sup>2) xs)"

definition pstd :: "real list \<Rightarrow> real" where
  "pstd xs = sqrt (pvariance xs)"

text \<open>
  Modelled from the spec: the divisor of a column of \<open>StandardScaler\<close>; section 4.2 has a
  column whose standard deviation is zero only centred, which is division by 1.
\<close>

definition scale_of :: "real list \<Rightarrow> real" where
  "scale_of xs = (if pstd xs = 0 then 1 else pstd xs)"

text \<open>
  Modelled from the spec: \<open>StandardScaler().fit_transform\<close> itself, one output row per input
  row and in the same order, as section 4.2 states.
\<close>

definition fit_transform :: "real list list \<Rightarrow> real list list" where
  "fit_transform X =
     map (\<lambda>r. map (\<lambda>j. (r ! j - mean (column j X)) / scale_of (column j X)) [0..<length r]) X"

subsection \<open>Model parameters derived from the population size (lines 193 and 198)\<close>

text \<open>\<open>int(np.sqrt(n))\<close>: the square root, truncated.\<close>

definition int_sqrt :: "nat \<Rightarrow> nat" where
  "int_sqrt n = nat (py_int (sqrt (real n)))"

text \<open>A search that computes the same number without real arithmetic.\<close>

fun sqrt_search :: "nat \<Rightarrow> nat \<Rightarrow> nat" where
  "sqrt_search n 0 = 0"
| "sqrt_search n (Suc m) = (if Suc m * Suc m \<le> n then Suc m else sqrt_search n m)"

text \<open>Python's \<open>x or d\<close> on a number: \<open>d\<close> when \<open>x\<close> is zero.\<close>

definition nat_or :: "nat \<Rightarrow> nat \<Rightarrow> nat" where
  "nat_or x d = (if x = 0 then d else x)"

definition kmeans_k :: "nat \<Rightarrow> nat" where
  "kmeans_k n = max 2 (min 6 (nat_or (int_sqrt n) 2))"

definition dbscan_eps :: real where
  "dbscan_eps = 1.25"

definition dbscan_min_samples :: "nat \<Rightarrow> nat" where
  "dbscan_min_samples n = max 3 (min 8 (nat_or (n div 20) 3))"

definition iforest_contamination :: real where
  "iforest_contamination = 0.05"

text \<open>The specification's \<open>clamp(x, lo, hi)\<close>.\<close>

definition clamp :: "int \<Rightarrow> int \<Rightarrow> int \<Rightarrow> int" where
  "clamp x lo hi = max lo (min hi x)"

subsection \<open>What the run writes\<close>

datatype metric = MStr string | MInt int | MNum real

text \<open>The audit row that \<open>log_stage\<close> inserts (lines 141-169); times are microseconds.\<close>

record audit_record =
  a_run_id :: string
  a_model_name :: string
  a_model_version :: string
  a_stage :: string
  a_status :: string
  a_started_at :: int
  a_finished_at :: int
  a_duration_ms :: int
  a_processed_records :: nat
  a_feature_set :: "string list"
  a_metrics :: "(string \<times> metric) list"
  a_error_message :: "string option"
  a_initiated_by :: string

text \<open>The region snapshot row appended at lines 248-272; dates are day numbers.\<close>

record snapshot_row =
  s_snapshot_date :: int
  s_snapshot_window_days :: nat
  s_organization_id :: pyval
  s_county_id :: pyval
  s_state_id :: pyval
  s_profile_count :: nat
  s_avg_risk_score :: real
  s_max_risk_score :: real
  s_min_risk_score :: real
  s_risk_growth_pct :: real
  s_drift_value :: real
  s_drift_status :: string
  s_kmeans_cluster :: "int option"
  s_dbscan_cluster :: "int option"
  s_anomaly_count :: nat
  s_projection_14d :: real
  s_model_version :: string
  s_pipeline_run_id :: string
  s_metadata :: "(string \<times> string) list"

text \<open>A write the run attempts, kept with its outcome (\<open>None\<close>: the collaborator accepted it).\<close>

datatype effect =
  UpsertProfiles "(string \<times> real) list"
| UpsertSnapshots "snapshot_row list"
| InsertAudit audit_record

type_synonym trace = "(effect \<times> err option) list"

subsection \<open>The environment of a run\<close>

text \<open>
  Everything the run reads from outside: the process environment, the generated run id, the
  successive readings of \<open>datetime.now\<close> (microseconds) and \<open>date.today\<close> (a day number),
  the answers of the storage service, and the three fitted models with the parameters the
  run passes to them.
\<close>

record env =
  SUPABASE_URL :: string
  SUPABASE_SERVICE_ROLE_KEY :: string
  AERA_MODEL_VERSION :: "string option"
  uuid4 :: string
  clock :: "nat \<Rightarrow> int"
  today :: int
  vulnerability_profiles :: "err + profile list"
  region_snapshots :: "err + stored_snapshot list"
  upsert_profiles :: "(string \<times> real) list \<Rightarrow> err option"
  upsert_snapshots :: "snapshot_row list \<Rightarrow> err option"
  insert_audit :: "audit_record \<Rightarrow> err option"
  kmeans_fit_predict :: "nat \<Rightarrow> real list list \<Rightarrow> err + int list"
  dbscan_fit_predict :: "real \<Rightarrow> nat \<Rightarrow> real list list \<Rightarrow> err + int list"
  iforest_fit_predict :: "real \<Rightarrow> real list list \<Rightarrow> err + int list"

text \<open>The state a run threads through its calls: clock readings taken, writes attempted.\<close>

record state =
  reads :: nat
  writes :: trace

type_synonym 'a action = "state \<Rightarrow> (err + 'a) \<times> state"

definition return_m :: "'a \<Rightarrow> 'a action" where
  "return_m x s = (Inr x, s)"

definition bind_m :: "'a action \<Rightarrow> ('a \<Rightarrow> 'b action) \<Rightarrow> 'b action" where
  "bind_m m f s = (case m s of (Inl e, s') \<Rightarrow> (Inl e, s') | (Inr x, s') \<Rightarrow> f x s')"

text \<open>A call that writes nothing: its answer, or the exception it raises.\<close>

definition call :: "err + 'a \<Rightarrow> 'a action" where
  "call r s = (r, s)"

text \<open>A write: recorded with its outcome; a refused write raises (\<open>raise_for_status\<close>).\<close>

definition attempt :: "effect \<Rightarrow> err option \<Rightarrow> unit action" where
  "attempt w r s =
     ((case r of None \<Rightarrow> Inr () | Some e \<Rightarrow> Inl e), s\<lparr>writes := writes s @ [(w, r)]\<rparr>)"

subsection \<open>The storage client (lines 52-84)\<close>

text \<open>\<open>select\<close> with \<open>snapshot_date=eq.d\<close>: the rows of the table dated \<open>d\<close>.\<close>

definition select_region_snapshots :: "env \<Rightarrow> int \<Rightarrow> stored_snapshot list action" where
  "select_region_snapshots e d =
     call (case region_snapshots e of
             Inl x \<Rightarrow> Inl x
           | Inr rows \<Rightarrow> Inr (filter (\<lambda>r. prev_snapshot_date r = d) rows))"

text \<open>\<open>upsert\<close> sends nothing when there are no rows (line 61).\<close>

definition client_upsert_profiles :: "env \<Rightarrow> (string \<times> real) list \<Rightarrow> unit action" where
  "client_upsert_profiles e rows =
     (if rows = [] then return_m ()
      else attempt (UpsertProfiles rows) (upsert_profiles e rows))"

definition client_upsert_snapshots :: "env \<Rightarrow> snapshot_row list \<Rightarrow> unit action" where
  "client_upsert_snapshots e rows =
     (if rows = [] then return_m ()
      else attempt (UpsertSnapshots rows) (upsert_snapshots e rows))"

subsection \<open>log_stage (lines 138-169)\<close>

definition model_version :: "env \<Rightarrow> string" where
  "model_version e = fillna ''level3-2026.02'' (AERA_MODEL_VERSION e)"

definition feature_set :: "string list" where
  "feature_set =
     [''household_size'', ''medication_dependency'', ''insulin_dependency'',
      ''oxygen_powered_device'', ''mobility_limitation'', ''transportation_access'',
      ''financial_strain'', ''risk_score'']"

definition duration_ms :: "int \<Rightarrow> int \<Rightarrow> int" where
  "duration_ms started_at finished_at =
     py_int (real_of_int (finished_at - started_at) / 1000000 * 1000)"

definition audit_row ::
  "env \<Rightarrow> int \<Rightarrow> int \<Rightarrow> string \<Rightarrow> string \<Rightarrow> nat \<Rightarrow> (string \<times> metric) list \<Rightarrow> string option
   \<Rightarrow> audit_record" where
  "audit_row e started_at finished_at stage status processed metrics error =
     \<lparr>a_run_id = uuid4 e,
      a_model_name = ''aera-level3'',
      a_model_version = model_version e,
      a_stage = stage,
      a_status = status,
      a_started_at = started_at,
      a_finished_at = finished_at,
      a_duration_ms = duration_ms started_at finished_at,
      a_processed_records = processed,
      a_feature_set = feature_set,
      a_metrics = metrics,
      a_error_message = error,
      a_initiated_by = ''nightly_pipeline''\<rparr>"

definition log_stage ::
  "env \<Rightarrow> int \<Rightarrow> string \<Rightarrow> string \<Rightarrow> nat \<Rightarrow> (string \<times> metric) list \<Rightarrow> string option
   \<Rightarrow> unit action" where
  "log_stage e started_at stage status processed metrics error s =
     (let finished_at = clock e (reads s);
          row = audit_row e started_at finished_at stage status processed metrics error
      in attempt (InsertAudit row) (insert_audit e row) (s\<lparr>reads := Suc (reads s)\<rparr>))"

subsection \<open>The scored frame and its region groups (lines 224-236)\<close>

text \<open>\<open>df["risk_score"] = calculate_risk(df)\<close> (line 184).\<close>

definition with_scores :: "profile list \<Rightarrow> real list \<Rightarrow> profile list" where
  "with_scores df scores = map2 (\<lambda>p r. p\<lparr>risk_score := Some r\<rparr>) df scores"

text \<open>
  Assigning a fitted model's labels as a column: pandas raises when the array is not as long
  as the frame.
\<close>

definition assign_column :: "nat \<Rightarrow> int list \<Rightarrow> int list action" where
  "assign_column n labels =
     call (if length labels = n then Inr labels
           else Inl ''Length of values does not match length of index'')"

text \<open>A row of the frame once the three model columns are set.\<close>

record frame_row =
  fr_profile :: profile
  fr_risk_score :: real
  fr_kmeans_cluster :: int
  fr_dbscan_cluster :: int
  fr_is_outlier :: bool

definition frame_of ::
  "profile list \<Rightarrow> real list \<Rightarrow> int list \<Rightarrow> int list \<Rightarrow> bool list \<Rightarrow> frame_row list" where
  "frame_of df scores km db outl =
     map (\<lambda>(p, r, k, d, b).
            \<lparr>fr_profile = p, fr_risk_score = r, fr_kmeans_cluster = k,
             fr_dbscan_cluster = d, fr_is_outlier = b\<rparr>)
         (zip df (zip scores (zip km (zip db outl))))"

text \<open>
  \<open>groupby(..., dropna=False)\<close> keeps the rows whose key is missing, and reports the missing
  key of such a group as the float \<open>nan\<close> (pandas factorizes the key column and uses the one
  null of the column's dtype, which for an object column is \<open>nan\<close>).
\<close>

definition na_key :: "string option \<Rightarrow> pyval" where
  "na_key v = (case v of None \<Rightarrow> PyNaN | Some s \<Rightarrow> PyStr s)"

definition group_key :: "frame_row \<Rightarrow> pyval \<times> pyval \<times> pyval" where
  "group_key r =
     (na_key (county_id (fr_profile r)),
      na_key (state_id (fr_profile r)),
      na_key (organization_id (fr_profile r)))"

text \<open>Groups come sorted by key, a missing key after every string.\<close>

definition key_rank :: "pyval \<Rightarrow> bool \<times> string" where
  "key_rank v = (case v of PyStr s \<Rightarrow> (False, s) | _ \<Rightarrow> (True, []))"

definition group_keys :: "frame_row list \<Rightarrow> (pyval \<times> pyval \<times> pyval) list" where
  "group_keys df =
     sort_key (\<lambda>(c, s, g). (key_rank c, key_rank s, key_rank g)) (remdups (map group_key df))"

text \<open>\<open>pd.Series.mode\<close>: the most frequent values, ascending.\<close>

definition series_mode :: "int list \<Rightarrow> int list" where
  "series_mode s =
     (let vals = sort (remdups s);
          top = fold max (map (count_list s) vals) 0
      in filter (\<lambda>v. count_list s v = top) vals)"

text \<open>\<open>lambda s: int(pd.Series.mode(s).iloc[0]) if len(s) else None\<close>.\<close>

definition dominant :: "int list \<Rightarrow> int option" where
  "dominant s =
     (if s = [] then None
      else (case series_mode s of [] \<Rightarrow> None | v # _ \<Rightarrow> Some v))"

text \<open>Maximum and minimum of a group's column; a group is never empty.\<close>

fun series_max :: "real list \<Rightarrow> real" where
  "series_max [] = 0"
| "series_max (x # xs) = fold max xs x"

fun series_min :: "real list \<Rightarrow> real" where
  "series_min [] = 0"
| "series_min (x # xs) = fold min xs x"

record group_row =
  g_county_id :: pyval
  g_state_id :: pyval
  g_organization_id :: pyval
  g_profile_count :: nat
  g_avg_risk_score :: real
  g_max_risk_score :: real
  g_min_risk_score :: real
  g_anomaly_count :: nat
  g_kmeans_cluster :: "int option"
  g_dbscan_cluster :: "int option"

definition agg :: "pyval \<times> pyval \<times> pyval \<Rightarrow> frame_row list \<Rightarrow> group_row" where
  "agg k rows =
     \<lparr>g_county_id = fst k,
      g_state_id = fst (snd k),
      g_organization_id = snd (snd k),
      g_profile_count = length rows,
      g_avg_risk_score = mean (map fr_risk_score rows),
      g_max_risk_score = series_max (map fr_risk_score rows),
      g_min_risk_score = series_min (map fr_risk_score rows),
      g_anomaly_count = length (filter fr_is_outlier rows),
      g_kmeans_cluster = dominant (map fr_kmeans_cluster rows),
      g_dbscan_cluster = dominant (map fr_dbscan_cluster rows)\<rparr>"

definition grouped :: "frame_row list \<Rightarrow> group_row list" where
  "grouped df = map (\<lambda>k. agg k (filter (\<lambda>r. group_key r = k) df)) (group_keys df)"

subsection \<open>Drift and snapshot rows (lines 220-272)\<close>

text \<open>The dict comprehension of line 220: a later row replaces an earlier one with its key.\<close>

definition prev_lookup :: "stored_snapshot list \<Rightarrow> (pyval \<times> pyval) \<rightharpoonup> real" where
  "prev_lookup prev_snapshots =
     fold (\<lambda>r m. m((json_val (prev_county_id r), json_val (prev_state_id r))
                      \<mapsto> fillna 0 (prev_avg_risk_score r)))
          prev_snapshots Map.empty"

definition dict_get :: "('k \<rightharpoonup> 'v) \<Rightarrow> 'k \<Rightarrow> 'v \<Rightarrow> 'v" where
  "dict_get m k d = (case m k of None \<Rightarrow> d | Some v \<Rightarrow> v)"

definition snapshot_row :: "env \<Rightarrow> ((pyval \<times> pyval) \<rightharpoonup> real) \<Rightarrow> group_row \<Rightarrow> snapshot_row" where
  "snapshot_row e lookup row =
     (let county_id = py_or (g_county_id row) (PyStr ''UNKNOWN'');
          state_id = py_or (g_state_id row) (PyStr ''UNKNOWN'');
          avg_risk = g_avg_risk_score row;
          prev_avg = dict_get lookup (county_id, state_id) 0;
          drift = (if prev_avg = 0 then 0 else round4 ((avg_risk - prev_avg) / prev_avg));
          growth = drift;
          projection_14d = round4 (avg_risk * (1 + growth * 0.5))
      in \<lparr>s_snapshot_date = today e,
          s_snapshot_window_days = 30,
          s_organization_id = g_organization_id row,
          s_county_id = county_id,
          s_state_id = state_id,
          s_profile_count = g_profile_count row,
          s_avg_risk_score = round4 avg_risk,
          s_max_risk_score = round4 (g_max_risk_score row),
          s_min_risk_score = round4 (g_min_risk_score row),
          s_risk_growth_pct = growth,
          s_drift_value = drift,
          s_drift_status = classify_drift drift,
          s_kmeans_cluster = g_kmeans_cluster row,
          s_dbscan_cluster = g_dbscan_cluster row,
          s_anomaly_count = g_anomaly_count row,
          s_projection_14d = projection_14d,
          s_model_version = model_version e,
          s_pipeline_run_id = uuid4 e,
          s_metadata = [(''generated_by'', ''nightly-level3-pipeline.py'')]\<rparr>)"

definition snapshot_rows :: "env \<Rightarrow> stored_snapshot list \<Rightarrow> frame_row list \<Rightarrow> snapshot_row list" where
  "snapshot_rows e prev_snapshots df = map (snapshot_row e (prev_lookup prev_snapshots)) (grouped df)"

subsection \<open>The run (lines 125-292)\<close>

text \<open>\<open>rstrip("/")\<close> of the configured URL.\<close>

definition rstrip_slash :: "string \<Rightarrow> string" where
  "rstrip_slash u = rev (dropWhile (\<lambda>c. c = CHR ''/'') (rev u))"

text \<open>The body of the \<open>try\<close> (lines 172-283); its value is the status the run returns.\<close>

definition run_try :: "env \<Rightarrow> int \<Rightarrow> nat action" where
  "run_try e started_at =
     bind_m (call (vulnerability_profiles e)) (\<lambda>records.
     if records = [] then
       bind_m (log_stage e started_at ''pipeline'' ''SUCCESS'' 0
                 [(''message'', MStr ''no records'')] None) (\<lambda>_.
       return_m 0)
     else
       let scores = calculate_risk records;
           df = with_scores records scores;
           n = length df;
           risk_updates = map2 (\<lambda>p r. (profile_id p, r)) df scores
       in
       bind_m (client_upsert_profiles e risk_updates) (\<lambda>_.
       bind_m (log_stage e started_at ''risk_score'' ''SUCCESS'' n
                 [(''mean_risk'', MNum (mean scores))] None) (\<lambda>_.
       let features = prepare_features df;
           scaled = fit_transform features;
           k = kmeans_k n
       in
       bind_m (call (kmeans_fit_predict e k scaled)) (\<lambda>labels.
       bind_m (assign_column n labels) (\<lambda>kmeans_cluster.
       bind_m (log_stage e started_at ''kmeans'' ''SUCCESS'' n
                 [(''clusters'', MInt (int k))] None) (\<lambda>_.
       bind_m (call (dbscan_fit_predict e dbscan_eps (dbscan_min_samples n) scaled)) (\<lambda>labels.
       bind_m (assign_column n labels) (\<lambda>dbscan_cluster.
       bind_m (log_stage e started_at ''dbscan'' ''SUCCESS'' n
                 [(''noise_points'',
                   MInt (int (length (filter (\<lambda>c. c = - 1) dbscan_cluster))))] None) (\<lambda>_.
       bind_m (call (iforest_fit_predict e iforest_contamination scaled)) (\<lambda>labels.
       bind_m (assign_column n labels) (\<lambda>predicted.
       let is_outlier = map (\<lambda>c. c = - 1) predicted in
       bind_m (log_stage e started_at ''isolation_forest'' ''SUCCESS'' n
                 [(''outliers'', MInt (int (length (filter id is_outlier))))] None) (\<lambda>_.
       let prev_date = today e - 30 in
       bind_m (select_region_snapshots e prev_date) (\<lambda>prev_snapshots.
       let frame = frame_of df scores kmeans_cluster dbscan_cluster is_outlier;
           rows = snapshot_rows e prev_snapshots frame
       in
       bind_m (client_upsert_snapshots e rows) (\<lambda>_.
       bind_m (log_stage e started_at ''drift'' ''SUCCESS'' (length rows)
                 [(''snapshot_rows'', MInt (int (length rows)))] None) (\<lambda>_.
       bind_m (log_stage e started_at ''pipeline'' ''SUCCESS'' n
                 [(''run_id'', MStr (uuid4 e))] None) (\<lambda>_.
       return_m 0))))))))))))))))"

text \<open>What a run leaves behind: its exit status, what it printed to stderr, its writes.\<close>

record outcome =
  exit_status :: nat
  stderr :: "string list"
  written :: trace

definition run :: "env \<Rightarrow> outcome" where
  "run e =
     (let url = rstrip_slash (SUPABASE_URL e);
          key = SUPABASE_SERVICE_ROLE_KEY e
      in if url = [] \<or> key = [] then
           \<lparr>exit_status = 1,
            stderr = [''Missing SUPABASE_URL or SUPABASE_SERVICE_ROLE_KEY''],
            written = []\<rparr>
         else
           let started_at = clock e 0;
               s0 = \<lparr>reads = 1, writes = []\<rparr>
           in (case run_try e started_at s0 of
                 (Inr status, s) \<Rightarrow>
                   \<lparr>exit_status = status, stderr = [], written = writes s\<rparr>
               | (Inl exc, s) \<Rightarrow>
                   (case log_stage e started_at ''pipeline'' ''FAILED'' 0 [] (Some exc) s of
                      (_, s') \<Rightarrow>
                        \<lparr>exit_status = 1,
                         stderr = [''Pipeline failed: '' @ exc],
                         written = writes s'\<rparr>)))"

subsection \<open>Reading a trace\<close>

text \<open>The audit rows among the attempted writes, in the order of the attempts.\<close>

fun audit_rows :: "trace \<Rightarrow> audit_record list" where
  "audit_rows [] = []"
| "audit_rows ((InsertAudit r, _) # ws) = r # audit_rows ws"
| "audit_rows (_ # ws) = audit_rows ws"

fun is_upsert :: "effect \<Rightarrow> bool" where
  "is_upsert (InsertAudit _) = False"
| "is_upsert _ = True"


subsection \<open>The prior-period baseline, in the specification's words\<close>

text \<open>
  The stored snapshots dated \<open>d\<close> whose county and state are the given ones; the
  organization is not looked at.
\<close>

definition prior_snapshots ::
  "stored_snapshot list \<Rightarrow> int \<Rightarrow> pyval \<Rightarrow> pyval \<Rightarrow> stored_snapshot list" where
  "prior_snapshots table d county state =
     filter (\<lambda>r. prev_snapshot_date r = d \<and> json_val (prev_county_id r) = county
                 \<and> json_val (prev_state_id r) = state) table"

text \<open>
  The prior average risk of a region: none when no such snapshot is stored; otherwise that
  of the last one returned, a missing average counting as 0.
\<close>

definition prior_avg :: "stored_snapshot list \<Rightarrow> int \<Rightarrow> pyval \<Rightarrow> pyval \<Rightarrow> real option" where
  "prior_avg table d county state =
     (case prior_snapshots table d county state of
        [] \<Rightarrow> None
      | r # rs \<Rightarrow> Some (fillna 0 (prev_avg_risk_score (last (r # rs)))))"

subsection \<open>Invariants of a run\<close>

text \<open>
  An action keeps \<open>I\<close>, and leaves \<open>E x\<close> when it raises \<open>x\<close>.
\<close>

definition inv_step :: "(state \<Rightarrow> bool) \<Rightarrow> (err \<Rightarrow> state \<Rightarrow> bool) \<Rightarrow> 'a action \<Rightarrow> bool" where
  "inv_step I E m =
     (\<forall>s. I s \<longrightarrow> (case m s of (Inl x, s') \<Rightarrow> E x s' | (Inr _, s') \<Rightarrow> I s'))"







text \<open>
  The audit rows so far carry the run's start, the successive clock readings and the
  time elapsed since the start.
\<close>

definition timed :: "env \<Rightarrow> state \<Rightarrow> bool" where
  "timed e s =
     (reads s = Suc (length (audit_rows (writes s)))
      \<and> (\<forall>i<length (audit_rows (writes s)).
            a_started_at (audit_rows (writes s) ! i) = clock e 0
            \<and> a_finished_at (audit_rows (writes s) ! i) = clock e (Suc i)
            \<and> a_duration_ms (audit_rows (writes s) ! i)
                = duration_ms (clock e 0) (clock e (Suc i))))"

subsection \<open>What the run hands to its stages\<close>

text \<open>The frame after line 184, the score updates of line 185 and the matrix of line 191.\<close>

definition scored :: "profile list \<Rightarrow> profile list" where
  "scored records = with_scores records (calculate_risk records)"

definition risk_updates :: "profile list \<Rightarrow> (string \<times> real) list" where
  "risk_updates records =
     map2 (\<lambda>p r. (profile_id p, r)) (scored records) (calculate_risk records)"



subsection \<open>Sample runs\<close>

text \<open>
  Two profiles of one organization in Texas, the second without a county. The snapshot
  store holds, thirty days back, one snapshot of the county, one whose county is null and
  one whose county is the placeholder; and one of the county a day older. Every write is
  accepted.
\<close>

definition sample_profile :: profile where
  "sample_profile =
     \<lparr>profile_id = ''p0'', organization_id = Some ''org-1'', county_id = Some ''county-7'',
      state_id = Some ''TX'', household_size = Some 2, medication_dependency = Some False,
      insulin_dependency = Some True, oxygen_powered_device = Some False,
      mobility_limitation = None, transportation_access = Some True,
      financial_strain = None, risk_score = None, updated_at = None\<rparr>"

definition two_profiles :: "profile list" where
  "two_profiles =
     [sample_profile,
      sample_profile\<lparr>profile_id := ''p1'', county_id := None, household_size := Some 4\<rparr>]"

definition sample_prior :: "stored_snapshot list" where
  "sample_prior =
     [\<lparr>prev_county_id = Some ''county-7'', prev_state_id = Some ''TX'',
       prev_avg_risk_score = Some (5 / 2), prev_snapshot_date = 19970\<rparr>,
      \<lparr>prev_county_id = None, prev_state_id = Some ''TX'',
       prev_avg_risk_score = Some (5 / 2), prev_snapshot_date = 19970\<rparr>,
      \<lparr>prev_county_id = Some ''UNKNOWN'', prev_state_id = Some ''TX'',
       prev_avg_risk_score = Some (5 / 2), prev_snapshot_date = 19970\<rparr>]"

definition sample_table :: "stored_snapshot list" where
  "sample_table =
     sample_prior @
     [\<lparr>prev_county_id = Some ''county-7'', prev_state_id = Some ''TX'',
       prev_avg_risk_score = Some 1, prev_snapshot_date = 19969\<rparr>]"

definition sample_env :: env where
  "sample_env =
     \<lparr>SUPABASE_URL = ''https://aera.example/'',
      SUPABASE_SERVICE_ROLE_KEY = ''service-role-key'',
      AERA_MODEL_VERSION = None,
      uuid4 = ''run-1'',
      clock = (\<lambda>i. 1500 * int i),
      today = 20000,
      vulnerability_profiles = Inr two_profiles,
      region_snapshots = Inr sample_table,
      upsert_profiles = (\<lambda>_. None),
      upsert_snapshots = (\<lambda>_. None),
      insert_audit = (\<lambda>_. None),
      kmeans_fit_predict = (\<lambda>k X. Inr [0, 1]),
      dbscan_fit_predict = (\<lambda>eps m X. Inr [- 1, - 1]),
      iforest_fit_predict = (\<lambda>c X. Inr [1, - 1])\<rparr>"

definition sample_frame :: "frame_row list" where
  "sample_frame =
     frame_of (with_scores two_profiles [3, 19 / 5]) [3, 19 / 5] [0, 1] [- 1, - 1] [False, True]"

text \<open>The same environment with no profile to load.\<close>

definition empty_env :: env where
  "empty_env = sample_env\<lparr>vulnerability_profiles := Inr []\<rparr>"


text \<open>
  The entity of the risk-score example: a household of two, insulin dependent, no oxygen
  device, every other field missing.
\<close>

definition example_entity :: profile where
  "example_entity =
     \<lparr>profile_id = ''e1'', organization_id = None, county_id = None, state_id = None,
      household_size = Some 2, medication_dependency = None,
      insulin_dependency = Some True, oxygen_powered_device = Some False,
      mobility_limitation = None, transportation_access = None,
      financial_strain = None, risk_score = None, updated_at = None\<rparr>"

section \<open>Properties\<close>

subsection \<open>Drift classification\<close>

text \<open>
  C5. \<open>classify_drift\<close> answers ACCELERATING exactly for a drift above 0.25, ESCALATING exactly
  for a drift above 0.15 and at most 0.25, and STABLE for every other drift. The two
  boundaries fall to the lower tier: 0.25 is ESCALATING and 0.15 is STABLE; 0.30 is
  ACCELERATING, 0.20 is ESCALATING and 0.10 is STABLE.
\<close>

theorem classify_drift_tiers:
  "(classify_drift v = ''ACCELERATING'' \<longleftrightarrow> v > 0.25)
   \<and> (classify_drift v = ''ESCALATING'' \<longleftrightarrow> 0.15 < v \<and> v \<le> 0.25)
   \<and> (classify_drift v = ''STABLE'' \<longleftrightarrow> \<not> v > 0.25 \<and> \<not> (0.15 < v \<and> v \<le> 0.25))
   \<and> classify_drift 0.25 = ''ESCALATING''
   \<and> classify_drift 0.15 = ''STABLE''
   \<and> classify_drift 0.30 = ''ACCELERATING''
   \<and> classify_drift 0.20 = ''ESCALATING''
   \<and> classify_drift 0.10 = ''STABLE''"
  by (simp add: classify_drift_def)

subsection \<open>Parameters of the density detector\<close>

lemma floor_div20: "\<lfloor>real n / 20\<rfloor> = int (n div 20)"
  using floor_divide_of_nat_eq[of n 20] by simp

text \<open>
  C9. For a population of n \<ge> 1 entities the density detector is given
  min_samples = clamp(floor(n / 20), 3, 8), which lies between 3 and 8, and the fixed
  radius eps = 1.25.
\<close>

theorem dbscan_parameters:
  assumes "1 \<le> n"
  shows "int (dbscan_min_samples n) = clamp \<lfloor>real n / 20\<rfloor> 3 8
         \<and> 3 \<le> dbscan_min_samples n \<and> dbscan_min_samples n \<le> 8
         \<and> dbscan_eps = 1.25"
  unfolding floor_div20
  by (auto simp add: dbscan_min_samples_def nat_or_def clamp_def dbscan_eps_def max_def min_def)

theorem dbscan_parameters_witness:
  "(1::nat) \<le> 100 \<and> int (dbscan_min_samples 100) = clamp \<lfloor>real 100 / 20\<rfloor> 3 8
   \<and> dbscan_min_samples 100 = 5 \<and> dbscan_eps = 1.25"
proof -
  have n: "(1::nat) \<le> 100" by simp
  have "dbscan_min_samples 100 = 5"
    by (simp add: dbscan_min_samples_def nat_or_def)
  with dbscan_parameters[OF n] n show ?thesis by simp
qed

subsection \<open>Risk score\<close>

lemma round4_three: "round4 3 = 3"
  by (simp add: round4_def round_half_even_def)

lemma round4_three_fifths: "round4 (3 / 5) = 3 / 5"
  by (simp add: round4_def round_half_even_def)

text \<open>
  On a batch in which every row has a transportation access, the score of every row is the
  specification's formula on the defaulted fields.
\<close>

lemma calculate_risk_bool_column:
  assumes "None \<notin> set (map transportation_access df)"
  shows "calculate_risk df =
           map (\<lambda>p. spec_risk_score (fillna 1 (household_size p))
                       (astype_int (fillna False (medication_dependency p)))
                       (astype_int (fillna False (insulin_dependency p)))
                       (astype_int (fillna False (oxygen_powered_device p)))
                       (astype_int (fillna False (mobility_limitation p)))
                       (astype_int (fillna True (transportation_access p)))
                       (astype_int (fillna False (financial_strain p)))) df"
proof -
  have neg: "astype_int (\<not> b) = 1 - astype_int b" for b
    by (simp add: astype_int_def)
  from assms have "column_dtype (map transportation_access df) = BoolColumn"
    by (simp add: column_dtype_def)
  then show ?thesis
    by (simp add: calculate_risk_def calculate_risk_row_def spec_risk_score_def
        invert_astype_int_def Let_def neg mult.commute)
qed

text \<open>
  On a batch with a row whose transportation access is missing, the term of that factor is
  -2.4 for a row with access (or without a value) and -1.2 for a row without access.
\<close>

lemma calculate_risk_object_column:
  assumes "None \<in> set (map transportation_access df)" and "p \<in> set df"
  shows "calculate_risk_row (column_dtype (map transportation_access df)) p =
           round4 (min (max (fillna 1 (household_size p)) 1 * 0.4) 3.2
                   + astype_int (fillna False (medication_dependency p)) * 1.8
                   + astype_int (fillna False (insulin_dependency p)) * 2.2
                   + astype_int (fillna False (oxygen_powered_device p)) * 2.5
                   + astype_int (fillna False (mobility_limitation p)) * 1.5
                   + (if fillna True (transportation_access p) then - 2.4 else - 1.2)
                   + astype_int (fillna False (financial_strain p)) * 1.4)"
  using assms(1)
  by (simp add: calculate_risk_row_def column_dtype_def invert_astype_int_def Let_def)

text \<open>
  C2 on the claim's own example, scored alone: household size 2, insulin dependency the
  only factor, transportation access missing. The formula of the claim gives 3; the code
  gives 0.6, because the filled access column is of dtype object and \<open>~\<close> inverts its
  \<open>True\<close> to -2. With the access given as true, the code gives 3 as well.
\<close>

theorem risk_score_of_example:
  "transportation_access example_entity = None
   \<and> calculate_risk [example_entity] = [3 / 5]
   \<and> spec_risk_score 2 0 1 0 0 1 0 = 3
   \<and> calculate_risk [example_entity\<lparr>transportation_access := Some True\<rparr>] = [3]"
proof -
  have "calculate_risk [example_entity] = [3 / 5]"
    by (simp add: calculate_risk_def column_dtype_def calculate_risk_row_def example_entity_def
        invert_astype_int_def fillna_def astype_int_def Let_def round4_three_fifths)
  moreover have "spec_risk_score 2 0 1 0 0 1 0 = 3"
    by (simp add: spec_risk_score_def round4_three)
  moreover have "calculate_risk [example_entity\<lparr>transportation_access := Some True\<rparr>] = [3]"
    by (simp add: calculate_risk_def column_dtype_def calculate_risk_row_def example_entity_def
        invert_astype_int_def fillna_def astype_int_def Let_def round4_three)
  ultimately show ?thesis
    by (simp add: example_entity_def)
qed

subsection \<open>Number of centroid clusters\<close>

lemma sqrt_search_sq: "sqrt_search n b * sqrt_search n b \<le> n"
  by (induction b) auto

lemma sqrt_search_max: "m \<le> b \<Longrightarrow> m * m \<le> n \<Longrightarrow> m \<le> sqrt_search n b"
proof (induction b)
  case 0
  then show ?case by simp
next
  case (Suc b)
  show ?case
  proof (cases "Suc b * Suc b \<le> n")
    case True
    with Suc.prems show ?thesis by simp
  next
    case False
    with Suc.prems have "m \<noteq> Suc b" by auto
    with Suc.prems have "m \<le> b" by simp
    with Suc.IH Suc.prems False show ?thesis by simp
  qed
qed

lemma int_sqrt_floor: "int (int_sqrt n) = \<lfloor>sqrt (real n)\<rfloor>"
  by (simp add: int_sqrt_def py_int_def)

lemma int_sqrt_unique:
  assumes "m * m \<le> n" and "n < Suc m * Suc m"
  shows "int_sqrt n = m"
proof -
  have "(real m)\<^sup>2 \<le> real n"
    using assms(1) by (metis of_nat_le_iff of_nat_mult power2_eq_square)
  then have lo: "real m \<le> sqrt (real n)"
    by (simp add: real_le_rsqrt)
  have "real n < (real (Suc m))\<^sup>2"
    using assms(2) by (metis of_nat_less_iff of_nat_mult power2_eq_square)
  then have hi: "sqrt (real n) < real (Suc m)"
    by (simp add: real_less_lsqrt)
  have "\<lfloor>sqrt (real n)\<rfloor> = int m"
    using lo hi by (simp add: floor_eq_iff)
  then show ?thesis
    using int_sqrt_floor[of n] by simp
qed

lemma int_sqrt_search: "int_sqrt n = sqrt_search n n"
proof (rule int_sqrt_unique)
  show "sqrt_search n n * sqrt_search n n \<le> n"
    by (rule sqrt_search_sq)
  show "n < Suc (sqrt_search n n) * Suc (sqrt_search n n)"
  proof (rule ccontr)
    assume "\<not> n < Suc (sqrt_search n n) * Suc (sqrt_search n n)"
    then have le: "Suc (sqrt_search n n) * Suc (sqrt_search n n) \<le> n" by simp
    have "Suc (sqrt_search n n) \<le> Suc (sqrt_search n n) * Suc (sqrt_search n n)" by simp
    with le have "Suc (sqrt_search n n) \<le> n" by linarith
    from sqrt_search_max[OF this le] show False by simp
  qed
qed

lemma round_sqrt_seven: "round (sqrt (7::real)) = 3"
proof -
  have "(5 / 2)\<^sup>2 \<le> (7::real)" by (simp add: power2_eq_square)
  then have lo: "5 / 2 \<le> sqrt 7" by (rule real_le_rsqrt)
  have "(7::real) < (7 / 2)\<^sup>2" by (simp add: power2_eq_square)
  then have hi: "sqrt 7 < 7 / 2" by (intro real_less_lsqrt) simp_all
  show ?thesis using lo hi by (simp add: round_def floor_eq_iff)
qed

text \<open>
  C1, as the code has it. For a population of n \<ge> 1 entities the number of centroid
  clusters is clamp(floor(sqrt(n)), 2, 6): the square root is truncated by \<open>int\<close>, not
  rounded to the nearest integer. It lies between 2 and 6.
\<close>

theorem kmeans_k_floor_sqrt:
  assumes "1 \<le> n"
  shows "int (kmeans_k n) = clamp \<lfloor>sqrt (real n)\<rfloor> 2 6
         \<and> 2 \<le> kmeans_k n \<and> kmeans_k n \<le> 6"
proof -
  have "int (kmeans_k n) = clamp (int (int_sqrt n)) 2 6"
    by (auto simp add: kmeans_k_def nat_or_def clamp_def max_def min_def)
  moreover have "2 \<le> kmeans_k n \<and> kmeans_k n \<le> 6"
    by (simp add: kmeans_k_def)
  ultimately show ?thesis
    by (simp add: int_sqrt_floor)
qed

theorem kmeans_k_floor_sqrt_witness:
  "(1::nat) \<le> 7 \<and> int (kmeans_k 7) = clamp \<lfloor>sqrt (real 7)\<rfloor> 2 6 \<and> kmeans_k 7 = 2"
proof -
  have n: "(1::nat) \<le> 7" by simp
  have "kmeans_k 7 = 2"
    by (simp add: kmeans_k_def nat_or_def int_sqrt_search eval_nat_numeral)
  with kmeans_k_floor_sqrt[OF n] n show ?thesis by simp
qed

text \<open>
  C1, as the claim words it, fails for seven entities: the run asks for 2 clusters, and
  clamp(round(sqrt(7)), 2, 6) is 3.
\<close>

theorem kmeans_k_round_counterexample:
  "int (kmeans_k 7) = 2 \<and> clamp (round (sqrt (real 7))) 2 6 = 3"
proof -
  have "kmeans_k 7 = 2"
    by (simp add: kmeans_k_def nat_or_def int_sqrt_search eval_nat_numeral)
  then show ?thesis
    by (simp add: round_sqrt_seven clamp_def)
qed

subsection \<open>Actions, step by step\<close>

lemma log_stage_eq:
  "log_stage e t stage status n ms err s =
     ((case insert_audit e (audit_row e t (clock e (reads s)) stage status n ms err) of
         None \<Rightarrow> Inr () | Some x \<Rightarrow> Inl x),
      \<lparr>reads = Suc (reads s),
       writes = writes s @ [(InsertAudit (audit_row e t (clock e (reads s)) stage status n ms err),
                             insert_audit e (audit_row e t (clock e (reads s)) stage status n ms err))]\<rparr>)"
  by (simp add: log_stage_def attempt_def Let_def)

lemma log_stage_writes:
  "writes (snd (log_stage e t stage status n ms err s)) =
     writes s @ [(InsertAudit (audit_row e t (clock e (reads s)) stage status n ms err),
                  insert_audit e (audit_row e t (clock e (reads s)) stage status n ms err))]"
  by (simp add: log_stage_eq)

lemma audit_rows_append: "audit_rows (ws @ vs) = audit_rows ws @ audit_rows vs"
  by (induction ws rule: audit_rows.induct) simp_all

lemma inv_return: "inv_step I E (return_m x)"
  by (simp add: inv_step_def return_m_def)

lemma inv_bind:
  assumes "inv_step I E m" and "\<And>x. inv_step I E (f x)"
  shows "inv_step I E (bind_m m f)"
  unfolding inv_step_def bind_m_def
proof (intro allI impI)
  fix s assume "I s"
  with assms(1) have m: "case m s of (Inl x, s') \<Rightarrow> E x s' | (Inr _, s') \<Rightarrow> I s'"
    by (simp add: inv_step_def)
  show "case (case m s of (Inl e, s') \<Rightarrow> (Inl e, s') | (Inr x, s') \<Rightarrow> f x s') of
          (Inl x, s') \<Rightarrow> E x s' | (Inr _, s') \<Rightarrow> I s'"
  proof (cases "m s")
    case (Pair r s')
    show ?thesis
    proof (cases r)
      case (Inl x)
      with Pair m show ?thesis by simp
    next
      case (Inr y)
      with Pair m have "I s'" by simp
      with assms(2)[of y] have "case f y s' of (Inl x, s'') \<Rightarrow> E x s'' | (Inr _, s'') \<Rightarrow> I s''"
        by (simp add: inv_step_def)
      with Pair Inr show ?thesis by simp
    qed
  qed
qed

lemma inv_if:
  assumes "c \<Longrightarrow> inv_step I E a" and "\<not> c \<Longrightarrow> inv_step I E b"
  shows "inv_step I E (if c then a else b)"
  using assms by simp

lemma inv_call:
  assumes "\<And>x s. I s \<Longrightarrow> E x s"
  shows "inv_step I E (call r)"
  using assms by (cases r) (simp_all add: inv_step_def call_def)

lemma inv_assign:
  assumes "\<And>x s. I s \<Longrightarrow> E x s"
  shows "inv_step I E (assign_column n labels)"
  unfolding assign_column_def by (rule inv_call) (rule assms)

lemma inv_select:
  assumes "\<And>x s. I s \<Longrightarrow> E x s"
  shows "inv_step I E (select_region_snapshots e d)"
  unfolding select_region_snapshots_def by (rule inv_call) (rule assms)

lemma inv_upsert_profiles:
  assumes "inv_step I E (attempt (UpsertProfiles rows) (upsert_profiles e rows))"
  shows "inv_step I E (client_upsert_profiles e rows)"
  using assms by (simp add: client_upsert_profiles_def inv_return)

lemma inv_upsert_snapshots:
  assumes "inv_step I E (attempt (UpsertSnapshots rows) (upsert_snapshots e rows))"
  shows "inv_step I E (client_upsert_snapshots e rows)"
  using assms by (simp add: client_upsert_snapshots_def inv_return)

text \<open>The body of the \<open>try\<close> keeps whatever its calls and its writes keep.\<close>

lemma inv_run_try:
  assumes pure: "\<And>x s. I s \<Longrightarrow> E x s"
      and up1: "\<And>rows. inv_step I E (attempt (UpsertProfiles rows) (upsert_profiles e rows))"
      and up2: "\<And>rows. inv_step I E (attempt (UpsertSnapshots rows) (upsert_snapshots e rows))"
      and log: "\<And>stage n ms. inv_step I E (log_stage e t stage ''SUCCESS'' n ms None)"
  shows "inv_step I E (run_try e t)"
  unfolding run_try_def Let_def
  by (intro inv_bind inv_if inv_return inv_call inv_assign inv_select
        inv_upsert_profiles inv_upsert_snapshots up1 up2 log pure)

subsection \<open>The sample runs, evaluated\<close>

lemma sample_env_fields:
  "SUPABASE_SERVICE_ROLE_KEY sample_env = ''service-role-key''"
  "rstrip_slash (SUPABASE_URL sample_env) = ''https://aera.example''"
  "clock sample_env i = 1500 * int i"
  "today sample_env = 20000"
  "vulnerability_profiles sample_env = Inr two_profiles"
  "upsert_profiles sample_env u = None"
  "upsert_snapshots sample_env r = None"
  "insert_audit sample_env a = None"
  "kmeans_fit_predict sample_env k X = Inr [0, 1]"
  "dbscan_fit_predict sample_env eps m X = Inr [- 1, - 1]"
  "iforest_fit_predict sample_env c X = Inr [1, - 1]"
  by (simp_all add: sample_env_def rstrip_slash_def)

lemma sample_select:
  "select_region_snapshots sample_env 19970 = call (Inr sample_prior)"
  by (simp add: select_region_snapshots_def sample_env_def sample_table_def sample_prior_def)

lemma sample_scores: "calculate_risk two_profiles = [3, 19 / 5]"
  by (simp add: two_profiles_def sample_profile_def calculate_risk_def column_dtype_def
      calculate_risk_row_def invert_astype_int_def Let_def fillna_def astype_int_def
      round4_def round_half_even_def)

lemma sample_frame_rows:
  "sample_frame =
     [\<lparr>fr_profile = sample_profile\<lparr>risk_score := Some 3\<rparr>, fr_risk_score = 3,
       fr_kmeans_cluster = 0, fr_dbscan_cluster = - 1, fr_is_outlier = False\<rparr>,
      \<lparr>fr_profile = sample_profile\<lparr>profile_id := ''p1'', county_id := None,
          household_size := Some 4, risk_score := Some (19 / 5)\<rparr>, fr_risk_score = 19 / 5,
       fr_kmeans_cluster = 1, fr_dbscan_cluster = - 1, fr_is_outlier = True\<rparr>]"
  by (simp add: sample_frame_def frame_of_def with_scores_def two_profiles_def)

lemma sample_group_keys:
  "group_keys sample_frame =
     [(PyStr ''county-7'', PyStr ''TX'', PyStr ''org-1''), (PyNaN, PyStr ''TX'', PyStr ''org-1'')]"
  by (simp add: sample_frame_rows group_keys_def sample_profile_def group_key_def na_key_def
      key_rank_def)

lemma sample_groups:
  "grouped sample_frame =
     [agg (PyStr ''county-7'', PyStr ''TX'', PyStr ''org-1'') [sample_frame ! 0],
      agg (PyNaN, PyStr ''TX'', PyStr ''org-1'') [sample_frame ! 1]]"
  by (simp add: grouped_def sample_group_keys)
     (simp add: sample_frame_rows group_key_def na_key_def sample_profile_def)

lemma sample_counties:
  "map s_county_id (snapshot_rows sample_env sample_prior sample_frame)
     = [PyStr ''county-7'', PyNaN]"
  by (simp add: snapshot_rows_def sample_groups snapshot_row_def Let_def py_or_def agg_def)

lemma sample_body:
  "\<exists>s. run_try sample_env 0 \<lparr>reads = Suc 0, writes = []\<rparr> = (Inr 0, s)
        \<and> (UpsertSnapshots (snapshot_rows sample_env sample_prior sample_frame), None)
             \<in> set (writes s)
        \<and> length (audit_rows (writes s)) = 6"
proof -
  have ne: "snapshot_rows sample_env sample_prior sample_frame \<noteq> []"
    using arg_cong[OF sample_counties, of length] by auto
  have n: "length (with_scores two_profiles [3, 19 / 5]) = 2" "two_profiles \<noteq> []"
    by (simp_all add: with_scores_def two_profiles_def)
  have upd: "map2 (\<lambda>p r. (profile_id p, r)) (with_scores two_profiles [3, 19 / 5]) [3, 19 / 5] \<noteq> []"
    by (simp add: with_scores_def two_profiles_def)
  show ?thesis
    using ne upd
    by (simp add: run_try_def bind_m_def call_def return_m_def log_stage_eq Let_def
        sample_env_fields sample_scores n client_upsert_profiles_def
        client_upsert_snapshots_def attempt_def assign_column_def sample_select
        sample_frame_def[symmetric])
qed

lemma sample_run:
  "\<exists>s::state. run sample_env = \<lparr>exit_status = 0, stderr = [], written = writes s\<rparr>
        \<and> (UpsertSnapshots (snapshot_rows sample_env sample_prior sample_frame), None)
             \<in> set (writes s)
        \<and> length (audit_rows (writes s)) = 6"
proof -
  from sample_body obtain s
    where s: "run_try sample_env 0 \<lparr>reads = Suc 0, writes = []\<rparr> = (Inr 0, s)"
      and w: "(UpsertSnapshots (snapshot_rows sample_env sample_prior sample_frame), None)
                \<in> set (writes s)"
      and a: "length (audit_rows (writes s)) = 6"
    by blast
  have r: "run sample_env = \<lparr>exit_status = 0, stderr = [], written = writes s\<rparr>"
    by (simp add: run_def Let_def sample_env_fields s)
  show ?thesis
    by (rule exI[of _ s]) (simp add: r w a)
qed

subsection \<open>Empty population\<close>

text \<open>
  C7. When the loaded population is empty and the audit sink accepts the row, the run
  writes exactly one audit row, of status SUCCESS and with no processed record, upserts
  neither scores nor snapshots, prints nothing to stderr and returns status 0.
\<close>

theorem empty_population:
  assumes url: "rstrip_slash (SUPABASE_URL e) \<noteq> []"
      and key: "SUPABASE_SERVICE_ROLE_KEY e \<noteq> []"
      and empty: "vulnerability_profiles e = Inr []"
      and sink: "insert_audit e (audit_row e (clock e 0) (clock e 1) ''pipeline'' ''SUCCESS'' 0
                    [(''message'', MStr ''no records'')] None) = None"
  shows "\<exists>row. run e = \<lparr>exit_status = 0, stderr = [], written = [(InsertAudit row, None)]\<rparr>
           \<and> a_stage row = ''pipeline'' \<and> a_status row = ''SUCCESS''
           \<and> a_processed_records row = 0 \<and> a_error_message row = None"
proof -
  let ?row = "audit_row e (clock e 0) (clock e 1) ''pipeline'' ''SUCCESS'' 0
                [(''message'', MStr ''no records'')] None"
  have body: "run_try e (clock e 0) \<lparr>reads = Suc 0, writes = []\<rparr>
                = (Inr 0, \<lparr>reads = Suc (Suc 0), writes = [(InsertAudit ?row, None)]\<rparr>)"
    using empty sink
    by (simp add: run_try_def bind_m_def call_def return_m_def log_stage_eq)
  have "run e = \<lparr>exit_status = 0, stderr = [], written = [(InsertAudit ?row, None)]\<rparr>"
    using url key by (simp add: run_def Let_def body)
  moreover have "a_stage ?row = ''pipeline'' \<and> a_status ?row = ''SUCCESS''
           \<and> a_processed_records ?row = 0 \<and> a_error_message ?row = None"
    by (simp add: audit_row_def)
  ultimately show ?thesis by blast
qed

theorem empty_population_witness:
  "exit_status (run empty_env) = 0 \<and> stderr (run empty_env) = []
   \<and> length (written (run empty_env)) = 1
   \<and> map a_processed_records (audit_rows (written (run empty_env))) = [0]"
proof -
  have url: "rstrip_slash (SUPABASE_URL empty_env) \<noteq> []"
    by (simp add: empty_env_def sample_env_def rstrip_slash_def)
  have key: "SUPABASE_SERVICE_ROLE_KEY empty_env \<noteq> []"
    by (simp add: empty_env_def sample_env_def)
  have empty: "vulnerability_profiles empty_env = Inr []"
    by (simp add: empty_env_def)
  have sink: "insert_audit empty_env a = None" for a
    by (simp add: empty_env_def sample_env_def)
  from empty_population[OF url key empty sink] show ?thesis
    by auto
qed

text \<open>A refused audit row turns the same run into a failed one.\<close>

lemma refused_audit_on_empty_input:
  assumes url: "rstrip_slash (SUPABASE_URL e) \<noteq> []"
      and key: "SUPABASE_SERVICE_ROLE_KEY e \<noteq> []"
      and empty: "vulnerability_profiles e = Inr []"
      and sink: "insert_audit e (audit_row e (clock e 0) (clock e 1) ''pipeline'' ''SUCCESS'' 0
                    [(''message'', MStr ''no records'')] None) = Some x"
  shows "exit_status (run e) = 1 \<and> length (written (run e)) = 2"
proof -
  let ?row = "audit_row e (clock e 0) (clock e 1) ''pipeline'' ''SUCCESS'' 0
                [(''message'', MStr ''no records'')] None"
  have body: "run_try e (clock e 0) \<lparr>reads = Suc 0, writes = []\<rparr>
                = (Inl x, \<lparr>reads = Suc (Suc 0), writes = [(InsertAudit ?row, Some x)]\<rparr>)"
    using empty sink
    by (simp add: run_try_def bind_m_def call_def return_m_def log_stage_eq)
  show ?thesis
    using url key by (simp add: run_def Let_def body split_beta log_stage_writes)
qed

subsection \<open>A run that fails\<close>




























subsection \<open>Timing of the audit rows\<close>

lemma timed_attempt_upsert:
  assumes "is_upsert w"
  shows "inv_step (timed e) (\<lambda>_. timed e) (attempt w r)"
  using assms
  by (cases w; cases r)
     (simp_all add: inv_step_def attempt_def timed_def audit_rows_append)

lemma timed_log_state:
  assumes "timed e s"
  shows "timed e (snd (log_stage e (clock e 0) stage status n ms err s))"
proof -
  let ?rows = "audit_rows (writes s)"
  let ?row = "audit_row e (clock e 0) (clock e (reads s)) stage status n ms err"
  have rows: "audit_rows (writes (snd (log_stage e (clock e 0) stage status n ms err s)))
                = ?rows @ [?row]"
    by (simp add: log_stage_writes audit_rows_append)
  have rd: "reads (snd (log_stage e (clock e 0) stage status n ms err s)) = Suc (reads s)"
    by (simp add: log_stage_eq)
  from assms have r: "reads s = Suc (length ?rows)"
    by (simp add: timed_def)
  have new: "a_started_at ?row = clock e 0 \<and> a_finished_at ?row = clock e (Suc (length ?rows))
             \<and> a_duration_ms ?row = duration_ms (clock e 0) (clock e (Suc (length ?rows)))"
    by (simp add: audit_row_def r)
  show ?thesis
    unfolding timed_def rows rd
  proof (rule conjI, goal_cases)
    case 1
    show ?case
      by (simp add: r)
  next
    case 2
    show ?case
    proof (rule allI, rule impI)
      fix i assume "i < length (?rows @ [?row])"
      then consider "i < length ?rows" | "i = length ?rows"
        by (auto simp add: less_Suc_eq)
      then show "a_started_at ((?rows @ [?row]) ! i) = clock e 0
             \<and> a_finished_at ((?rows @ [?row]) ! i) = clock e (Suc i)
             \<and> a_duration_ms ((?rows @ [?row]) ! i) = duration_ms (clock e 0) (clock e (Suc i))"
      proof cases
        case 1
        with assms show ?thesis
          by (simp add: timed_def nth_append)
      next
        case 2
        with new show ?thesis
          by (simp add: nth_append)
      qed
    qed
  qed
qed

lemma timed_log:
  "inv_step (timed e) (\<lambda>_. timed e) (log_stage e (clock e 0) stage status n ms err)"
  unfolding inv_step_def
proof (intro allI impI)
  fix s assume "timed e s"
  then have "timed e (snd (log_stage e (clock e 0) stage status n ms err s))"
    by (rule timed_log_state)
  then show "case log_stage e (clock e 0) stage status n ms err s of
               (Inl x, s') \<Rightarrow> timed e s' | (Inr _, s') \<Rightarrow> timed e s'"
    by (cases "log_stage e (clock e 0) stage status n ms err s") (auto split: sum.splits)
qed

lemma timed_run_try: "inv_step (timed e) (\<lambda>_. timed e) (run_try e (clock e 0))"
  by (rule inv_run_try) (simp_all add: timed_attempt_upsert timed_log)

lemma timed_run: "\<exists>s. timed e s \<and> written (run e) = writes s"
proof (cases "rstrip_slash (SUPABASE_URL e) = [] \<or> SUPABASE_SERVICE_ROLE_KEY e = []")
  case True
  then have "written (run e) = writes \<lparr>reads = Suc 0, writes = []\<rparr>"
    by (auto simp add: run_def Let_def)
  moreover have "timed e \<lparr>reads = Suc 0, writes = []\<rparr>"
    by (simp add: timed_def)
  ultimately show ?thesis
    by blast
next
  case False
  have init: "timed e \<lparr>reads = Suc 0, writes = []\<rparr>"
    by (simp add: timed_def)
  obtain r s where body: "run_try e (clock e 0) \<lparr>reads = Suc 0, writes = []\<rparr> = (r, s)"
    by (cases "run_try e (clock e 0) \<lparr>reads = Suc 0, writes = []\<rparr>")
  with timed_run_try[of e] init have s: "timed e s"
    by (auto simp add: inv_step_def split: sum.splits)
  show ?thesis
  proof (cases r)
    case (Inr status)
    with False body have "written (run e) = writes s"
      by (simp add: run_def Let_def)
    with s show ?thesis by blast
  next
    case (Inl exc)
    let ?s' = "snd (log_stage e (clock e 0) ''pipeline'' ''FAILED'' 0 [] (Some exc) s)"
    from Inl False body have "written (run e) = writes ?s'"
      by (simp add: run_def Let_def split_beta)
    moreover from s have "timed e ?s'"
      by (rule timed_log_state)
    ultimately show ?thesis by blast
  qed
qed

text \<open>\<open>duration_ms\<close> is the elapsed time in whole milliseconds, truncated towards zero.\<close>

lemma duration_ms_trunc:
  "duration_ms a b = (if a \<le> b then (b - a) div 1000 else - ((a - b) div 1000))"
proof -
  have scale: "real_of_int (b - a) / 1000000 * 1000 = real_of_int (b - a) / real_of_int 1000"
    by simp
  have fl: "\<lfloor>real_of_int (b - a) / real_of_int 1000\<rfloor> = (b - a) div 1000"
    by (rule floor_divide_of_int_eq)
  have "real_of_int (b - a) = - real_of_int (a - b)"
    by simp
  then have "real_of_int (b - a) / real_of_int 1000 = - (real_of_int (a - b) / real_of_int 1000)"
    by (simp only: minus_divide_left)
  then have "\<lceil>real_of_int (b - a) / real_of_int 1000\<rceil> = - \<lfloor>real_of_int (a - b) / real_of_int 1000\<rfloor>"
    by (simp only: ceiling_def minus_minus)
  also have "\<dots> = - ((a - b) div 1000)"
    by (simp only: floor_divide_of_int_eq)
  finally have ce: "\<lceil>real_of_int (b - a) / real_of_int 1000\<rceil> = - ((a - b) div 1000)" .
  show ?thesis
    unfolding duration_ms_def py_int_def scale fl ce
    by (simp add: divide_nonneg_nonneg)
qed

lemma py_int_mono:
  assumes "x \<le> y"
  shows "py_int x \<le> py_int y"
proof (cases "0 \<le> x")
  case True
  with assms have "0 \<le> y" by simp
  with True assms show ?thesis
    by (simp add: py_int_def floor_mono)
next
  case False
  show ?thesis
  proof (cases "0 \<le> y")
    case True
    from False have "\<lceil>x\<rceil> \<le> 0"
      by (simp add: ceiling_le_zero)
    moreover from True have "0 \<le> \<lfloor>y\<rfloor>"
      by simp
    ultimately have "\<lceil>x\<rceil> \<le> \<lfloor>y\<rfloor>"
      by linarith
    with False True show ?thesis
      by (simp add: py_int_def)
  next
    case y: False
    with False assms show ?thesis
      by (simp add: py_int_def ceiling_mono)
  qed
qed

lemma duration_ms_mono: "b \<le> c \<Longrightarrow> duration_ms a b \<le> duration_ms a c"
  unfolding duration_ms_def
  by (rule py_int_mono) (simp add: divide_right_mono)

text \<open>
  C10. Every audit row of a run carries the run's start as its started_at; the i-th row's
  finished_at is the i-th clock reading after the start, and its duration_ms is the time
  from the run's start to that reading in whole milliseconds (not the time its own stage
  took). Hence, when the clock does not go backwards, duration_ms does not decrease from
  one audit row of the run to the next.
\<close>

theorem audit_timing:
  "(\<forall>r\<in>set (audit_rows (written (run e))).
      a_started_at r = clock e 0
      \<and> a_duration_ms r =
          (if clock e 0 \<le> a_finished_at r then (a_finished_at r - clock e 0) div 1000
           else - ((clock e 0 - a_finished_at r) div 1000)))
   \<and> (\<forall>i<length (audit_rows (written (run e))).
        a_finished_at (audit_rows (written (run e)) ! i) = clock e (Suc i))
   \<and> ((\<forall>i. clock e i \<le> clock e (Suc i))
        \<longrightarrow> sorted (map a_duration_ms (audit_rows (written (run e)))))"
proof -
  obtain s where s: "timed e s" and w: "written (run e) = writes s"
    using timed_run by blast
  let ?rows = "audit_rows (writes s)"
  from s have nth: "\<And>i. i < length ?rows \<Longrightarrow>
      a_started_at (?rows ! i) = clock e 0 \<and> a_finished_at (?rows ! i) = clock e (Suc i)
      \<and> a_duration_ms (?rows ! i) = duration_ms (clock e 0) (clock e (Suc i))"
    by (simp add: timed_def)
  have each: "\<forall>r\<in>set ?rows. a_started_at r = clock e 0
      \<and> a_duration_ms r =
          (if clock e 0 \<le> a_finished_at r then (a_finished_at r - clock e 0) div 1000
           else - ((clock e 0 - a_finished_at r) div 1000))"
  proof
    fix r assume "r \<in> set ?rows"
    then obtain i where "i < length ?rows" and "r = ?rows ! i"
      by (auto simp add: in_set_conv_nth)
    with nth[of i] show "a_started_at r = clock e 0
      \<and> a_duration_ms r =
          (if clock e 0 \<le> a_finished_at r then (a_finished_at r - clock e 0) div 1000
           else - ((clock e 0 - a_finished_at r) div 1000))"
      by (simp add: duration_ms_trunc)
  qed
  have fin: "\<forall>i<length ?rows. a_finished_at (?rows ! i) = clock e (Suc i)"
    using nth by simp
  have mono: "sorted (map a_duration_ms ?rows)" if tick: "\<forall>i. clock e i \<le> clock e (Suc i)"
  proof -
    have up: "clock e i \<le> clock e j" if "i \<le> j" for i j
      using that tick by (simp add: lift_Suc_mono_le)
    show ?thesis
      unfolding sorted_iff_nth_mono
    proof (intro allI impI)
      fix i j assume "i \<le> j" and "j < length (map a_duration_ms ?rows)"
      then have i: "i < length ?rows" and j: "j < length ?rows" by simp_all
      from \<open>i \<le> j\<close> have "Suc i \<le> Suc j"
        by simp
      then have "clock e (Suc i) \<le> clock e (Suc j)"
        by (rule up)
      then have "duration_ms (clock e 0) (clock e (Suc i)) \<le> duration_ms (clock e 0) (clock e (Suc j))"
        by (rule duration_ms_mono)
      with nth[OF i] nth[OF j] i j show "map a_duration_ms ?rows ! i \<le> map a_duration_ms ?rows ! j"
        by simp
    qed
  qed
  from each fin mono show ?thesis
    unfolding w by blast
qed

theorem audit_timing_witness:
  "(\<forall>i. clock sample_env i \<le> clock sample_env (Suc i))
   \<and> length (audit_rows (written (run sample_env))) = 6
   \<and> map a_finished_at (audit_rows (written (run sample_env)))
       = [1500, 3000, 4500, 6000, 7500, 9000]
   \<and> sorted (map a_duration_ms (audit_rows (written (run sample_env))))"
proof -
  have tick: "\<forall>i. clock sample_env i \<le> clock sample_env (Suc i)"
    by (simp add: sample_env_fields)
  from sample_run have six: "length (audit_rows (written (run sample_env))) = 6"
    by auto
  from audit_timing[of sample_env]
  have fin: "\<forall>i<length (audit_rows (written (run sample_env))).
               a_finished_at (audit_rows (written (run sample_env)) ! i) = clock sample_env (Suc i)"
    and srt: "sorted (map a_duration_ms (audit_rows (written (run sample_env))))"
    using tick by blast+
  have "map a_finished_at (audit_rows (written (run sample_env)))
          = map (\<lambda>i. clock sample_env (Suc i)) [0..<6]"
    using fin six by (intro nth_equalityI) simp_all
  also have "\<dots> = [1500, 3000, 4500, 6000, 7500, 9000]"
    by (simp add: sample_env_fields upt_rec)
  finally show ?thesis
    using tick six srt by simp
qed

subsection \<open>Drift against the prior period\<close>

lemma fold_upd_lookup:
  "fold (\<lambda>r m. m(kf r \<mapsto> vf r)) rs m k =
     (case filter (\<lambda>r. kf r = k) rs of [] \<Rightarrow> m k | x # xs \<Rightarrow> Some (vf (last (x # xs))))"
proof (induction rs arbitrary: m)
  case Nil
  show ?case by simp
next
  case (Cons r rs)
  let ?m = "m(kf r \<mapsto> vf r)"
  let ?hits = "filter (\<lambda>r. kf r = k) rs"
  have step: "fold (\<lambda>r m. m(kf r \<mapsto> vf r)) (r # rs) m k =
                (case ?hits of [] \<Rightarrow> ?m k | x # xs \<Rightarrow> Some (vf (last (x # xs))))"
    using Cons.IH[of ?m] by (simp del: fun_upd_apply)
  show ?case
  proof (cases "kf r = k")
    case True
    then have "filter (\<lambda>r. kf r = k) (r # rs) = r # ?hits"
      by simp
    moreover from True have "?m k = Some (vf r)"
      by simp
    ultimately show ?thesis
      unfolding step by (cases ?hits) simp_all
  next
    case False
    then have "filter (\<lambda>r. kf r = k) (r # rs) = ?hits"
      by simp
    moreover from False have "?m k = m k"
      by simp
    ultimately show ?thesis
      unfolding step using False by (cases ?hits) simp_all
  qed
qed

lemma prev_lookup_prior:
  "prev_lookup (filter (\<lambda>r. prev_snapshot_date r = d) table) (county, state)
     = prior_avg table d county state"
proof -
  have sel: "filter (\<lambda>r. (json_val (prev_county_id r), json_val (prev_state_id r)) = (county, state))
               (filter (\<lambda>r. prev_snapshot_date r = d) table)
             = prior_snapshots table d county state"
    by (simp add: prior_snapshots_def conj_commute conj_left_commute)
  show ?thesis
    unfolding prev_lookup_def prior_avg_def
    by (simp only: fold_upd_lookup sel)
qed

lemma snapshot_rows_nth:
  assumes "i < length (grouped df)"
  shows "snapshot_rows e prev df ! i = snapshot_row e (prev_lookup prev) (grouped df ! i)"
  using assms by (simp add: snapshot_rows_def)

text \<open>
  The prior average risk of a snapshot row is that of the stored snapshot dated 30 days
  before the run date whose county and state are the ones the row carries (the organization
  takes no part in the lookup; of several such snapshots the last returned one counts). The
  drift is 0 when there is no such snapshot or its average is 0, and
  round((avg_risk - prev_avg) / prev_avg, 4) otherwise; risk_growth_pct equals the drift;
  projection_14d is round(avg_risk * (1 + drift * 0.5), 4).
\<close>

lemma drift_of_row:
  assumes "i < length (grouped df)"
  shows
    "(let avg_risk = g_avg_risk_score (grouped df ! i);
          row = snapshot_rows e (filter (\<lambda>r. prev_snapshot_date r = today e - 30) table) df ! i;
          prev = prior_avg table (today e - 30) (s_county_id row) (s_state_id row)
      in s_drift_value row =
           (case prev of
              None \<Rightarrow> 0
            | Some prev_avg \<Rightarrow>
                if prev_avg = 0 then 0 else round4 ((avg_risk - prev_avg) / prev_avg))
         \<and> s_risk_growth_pct row = s_drift_value row
         \<and> s_projection_14d row = round4 (avg_risk * (1 + s_drift_value row * 0.5)))"
proof -
  let ?prev = "filter (\<lambda>r. prev_snapshot_date r = today e - 30) table"
  let ?g = "grouped df ! i"
  let ?row = "snapshot_row e (prev_lookup ?prev) ?g"
  have row: "snapshot_rows e ?prev df ! i = ?row"
    using assms by (rule snapshot_rows_nth)
  have look: "prev_lookup ?prev (s_county_id ?row, s_state_id ?row)
                = prior_avg table (today e - 30) (s_county_id ?row) (s_state_id ?row)"
    by (rule prev_lookup_prior)
  have ids: "s_county_id ?row = py_or (g_county_id ?g) (PyStr ''UNKNOWN'')"
            "s_state_id ?row = py_or (g_state_id ?g) (PyStr ''UNKNOWN'')"
    by (simp_all add: snapshot_row_def Let_def)
  show ?thesis
    unfolding row Let_def
    using look
    by (cases "prior_avg table (today e - 30) (s_county_id ?row) (s_state_id ?row)")
       (simp_all add: ids snapshot_row_def Let_def dict_get_def)
qed

lemma round4_short:
  "round4 (1 / 5) = 1 / 5" "round4 (33 / 10) = 33 / 10" "round4 (19 / 5) = 19 / 5"
  by (simp_all add: round4_def round_half_even_def)

lemma drift_of_sample_row:
  "0 < length (grouped sample_frame)
   \<and> s_county_id (snapshot_rows sample_env
         (filter (\<lambda>r. prev_snapshot_date r = today sample_env - 30) sample_table)
         sample_frame ! 0) = PyStr ''county-7''
   \<and> prior_avg sample_table (today sample_env - 30) (PyStr ''county-7'') (PyStr ''TX'')
       = Some (5 / 2)
   \<and> s_drift_value (snapshot_rows sample_env
         (filter (\<lambda>r. prev_snapshot_date r = today sample_env - 30) sample_table)
         sample_frame ! 0) = 1 / 5
   \<and> s_projection_14d (snapshot_rows sample_env
         (filter (\<lambda>r. prev_snapshot_date r = today sample_env - 30) sample_table)
         sample_frame ! 0) = 33 / 10"
proof -
  let ?prev = "filter (\<lambda>r. prev_snapshot_date r = today sample_env - 30) sample_table"
  let ?row = "snapshot_rows sample_env ?prev sample_frame ! 0"
  have len: "0 < length (grouped sample_frame)"
    by (simp add: sample_groups)
  have ids: "s_county_id ?row = PyStr ''county-7''" "s_state_id ?row = PyStr ''TX''"
    by (simp_all add: snapshot_rows_nth[OF len] sample_groups snapshot_row_def Let_def
        py_or_def agg_def)
  have prior: "prior_avg sample_table (today sample_env - 30) (PyStr ''county-7'') (PyStr ''TX'')
                 = Some (5 / 2)"
    by (simp add: prior_avg_def prior_snapshots_def sample_table_def sample_prior_def
        sample_env_fields json_val_def fillna_def)
  have avg: "g_avg_risk_score (grouped sample_frame ! 0) = 3"
    unfolding sample_groups by (simp add: agg_def mean_def sample_frame_rows)
  note fields = drift_of_row[OF len, of sample_env sample_table, unfolded Let_def ids prior avg]
  have "(3 - 5 / 2) / (5 / 2) = (1 / 5 :: real)"
    by simp
  with fields have drift: "s_drift_value ?row = 1 / 5"
    by (simp add: round4_short)
  have "3 * (1 + 1 / 5 * 0.5) = (33 / 10 :: real)"
    by simp
  with fields drift have "s_projection_14d ?row = 33 / 10"
    by (simp add: round4_short)
  with len ids prior drift show ?thesis
    by simp
qed

text \<open>
  The row of a group without a county carries \<open>nan\<close>, which is the key of no stored snapshot:
  its prior is never found.
\<close>

lemma prior_avg_nan: "prior_avg table d PyNaN state = None"
  by (simp add: prior_avg_def prior_snapshots_def json_val_def split: option.splits)

lemma round4_drift: "round4 ((19 / 5 - 5 / 2) / (5 / 2)) = 13 / 25"
  by (simp add: round4_def round_half_even_def)

lemma sample_lookup:
  "prev_lookup sample_prior (PyStr ''county-7'', PyStr ''TX'') = Some (5 / 2)"
  "prev_lookup sample_prior (PyNaN, PyStr ''TX'') = None"
  by (simp_all add: prev_lookup_def sample_prior_def json_val_def fillna_def)

lemma sample_drift_rows:
  "map (\<lambda>r. (s_county_id r, s_state_id r, s_avg_risk_score r, s_drift_value r,
             s_risk_growth_pct r, s_projection_14d r))
     (snapshot_rows sample_env sample_prior sample_frame)
   = [(PyStr ''county-7'', PyStr ''TX'', 3, 1 / 5, 1 / 5, 33 / 10),
      (PyNaN, PyStr ''TX'', 19 / 5, 0, 0, 19 / 5)]"
proof -
  have g: "map (\<lambda>g. (g_county_id g, g_state_id g, g_avg_risk_score g)) (grouped sample_frame)
           = [(PyStr ''county-7'', PyStr ''TX'', 3), (PyNaN, PyStr ''TX'', 19 / 5)]"
    unfolding sample_groups by (simp add: agg_def mean_def sample_frame_rows)
  then obtain a b where ab: "grouped sample_frame = [a, b]"
    and a: "g_county_id a = PyStr ''county-7''" "g_state_id a = PyStr ''TX''"
           "g_avg_risk_score a = 3"
    and b: "g_county_id b = PyNaN" "g_state_id b = PyStr ''TX''" "g_avg_risk_score b = 19 / 5"
    by auto
  have "(3 - 5 / 2) / (5 / 2) = (1 / 5 :: real)" "3 * (1 + 1 / 5 * 0.5) = (33 / 10 :: real)"
    by simp_all
  then show ?thesis
    by (simp add: snapshot_rows_def ab snapshot_row_def Let_def a b py_or_def dict_get_def
        sample_lookup round4_short round4_three)
qed

text \<open>
  C3 on the sample run. The store holds, dated exactly 30 days before the run date, a
  snapshot of county-7 in TX, one of TX whose county is null and one of TX whose county is
  the string UNKNOWN, each of average risk 2.5. The run succeeds and upserts two rows. The
  row of county-7 has the drift of the claim, round((3 - 2.5) / 2.5, 4) = 0.2. The row of
  the group without a county has average risk 3.8 and drift 0, where the claim's formula
  gives round((3.8 - 2.5) / 2.5, 4) = 0.52 against either stored snapshot: the row is keyed
  by \<open>nan\<close>, and no stored snapshot has that key.
\<close>

theorem prior_of_missing_county_not_found:
  "region_snapshots sample_env = Inr sample_table
   \<and> map (\<lambda>r. (prev_county_id r, prev_state_id r, prev_avg_risk_score r))
         (filter (\<lambda>r. prev_snapshot_date r = today sample_env - 30) sample_table)
       = [(Some ''county-7'', Some ''TX'', Some (5 / 2)), (None, Some ''TX'', Some (5 / 2)),
          (Some ''UNKNOWN'', Some ''TX'', Some (5 / 2))]
   \<and> map (\<lambda>p. (county_id p, state_id p)) two_profiles
       = [(Some ''county-7'', Some ''TX''), (None, Some ''TX'')]
   \<and> exit_status (run sample_env) = 0
   \<and> (\<exists>rows. (UpsertSnapshots rows, None) \<in> set (written (run sample_env))
         \<and> map (\<lambda>r. (s_county_id r, s_state_id r, s_avg_risk_score r, s_drift_value r,
                      s_risk_growth_pct r, s_projection_14d r)) rows
             = [(PyStr ''county-7'', PyStr ''TX'', 3, 1 / 5, 1 / 5, 33 / 10),
                (PyNaN, PyStr ''TX'', 19 / 5, 0, 0, 19 / 5)])
   \<and> round4 ((19 / 5 - 5 / 2) / (5 / 2)) = 13 / 25"
proof -
  have store: "region_snapshots sample_env = Inr sample_table"
    by (simp add: sample_env_def)
  have prior: "map (\<lambda>r. (prev_county_id r, prev_state_id r, prev_avg_risk_score r))
                 (filter (\<lambda>r. prev_snapshot_date r = today sample_env - 30) sample_table)
               = [(Some ''county-7'', Some ''TX'', Some (5 / 2)), (None, Some ''TX'', Some (5 / 2)),
                  (Some ''UNKNOWN'', Some ''TX'', Some (5 / 2))]"
    by (simp add: sample_env_fields sample_table_def sample_prior_def)
  have profiles: "map (\<lambda>p. (county_id p, state_id p)) two_profiles
                  = [(Some ''county-7'', Some ''TX''), (None, Some ''TX'')]"
    by (simp add: two_profiles_def sample_profile_def)
  from sample_run sample_drift_rows
  have "exit_status (run sample_env) = 0
        \<and> (\<exists>rows. (UpsertSnapshots rows, None) \<in> set (written (run sample_env))
              \<and> map (\<lambda>r. (s_county_id r, s_state_id r, s_avg_risk_score r, s_drift_value r,
                           s_risk_growth_pct r, s_projection_14d r)) rows
                  = [(PyStr ''county-7'', PyStr ''TX'', 3, 1 / 5, 1 / 5, 33 / 10),
                     (PyNaN, PyStr ''TX'', 19 / 5, 0, 0, 19 / 5)])"
    by auto
  with store prior profiles round4_drift show ?thesis
    by simp
qed

subsection \<open>Region keys of the snapshot rows\<close>

lemma set_group_keys: "set (group_keys df) = group_key ` set df"
  by (simp add: group_keys_def)

lemma snapshot_row_ids:
  "s_county_id (snapshot_row e lookup g) = py_or (g_county_id g) (PyStr ''UNKNOWN'')"
  "s_state_id (snapshot_row e lookup g) = py_or (g_state_id g) (PyStr ''UNKNOWN'')"
  "s_organization_id (snapshot_row e lookup g) = g_organization_id g"
  by (simp_all add: snapshot_row_def Let_def)

text \<open>The snapshot row of the group an entity falls into.\<close>

lemma group_row_of_entity:
  assumes "r \<in> set df"
  shows "\<exists>row\<in>set (snapshot_rows e prev df).
           s_county_id row = py_or (na_key (county_id (fr_profile r))) (PyStr ''UNKNOWN'')
           \<and> s_state_id row = py_or (na_key (state_id (fr_profile r))) (PyStr ''UNKNOWN'')
           \<and> s_organization_id row = na_key (organization_id (fr_profile r))"
proof -
  let ?k = "group_key r"
  let ?g = "agg ?k (filter (\<lambda>x. group_key x = ?k) df)"
  from assms have "?k \<in> set (group_keys df)"
    by (simp add: set_group_keys)
  then have "?g \<in> set (grouped df)"
    by (auto simp add: grouped_def)
  then have mem: "snapshot_row e (prev_lookup prev) ?g \<in> set (snapshot_rows e prev df)"
    by (simp add: snapshot_rows_def)
  have keys: "g_county_id ?g = na_key (county_id (fr_profile r))"
    "g_state_id ?g = na_key (state_id (fr_profile r))"
    "g_organization_id ?g = na_key (organization_id (fr_profile r))"
    by (simp_all add: agg_def group_key_def)
  show ?thesis
    by (rule bexI[OF _ mem]) (simp add: snapshot_row_ids keys)
qed

text \<open>
  The organization of a snapshot row is its group's, as it is; and an empty county or
  state string is replaced by the placeholder.
\<close>

lemma organization_not_defaulted:
  assumes "row \<in> set (snapshot_rows e prev df)"
  shows "\<exists>g\<in>set (grouped df). s_organization_id row = g_organization_id g"
  using assms by (auto simp add: snapshot_rows_def snapshot_row_ids)

lemma empty_key_is_unknown:
  "py_or (na_key (Some [])) (PyStr ''UNKNOWN'') = PyStr ''UNKNOWN''"
  by (simp add: py_or_def na_key_def)

text \<open>
  A missing county or state reaches the loop as \<open>nan\<close>, which \<open>or\<close> takes for true: the row
  of such a group carries \<open>nan\<close>, not the placeholder.
\<close>

lemma missing_key_is_nan:
  "py_or (na_key None) (PyStr ''UNKNOWN'') = PyNaN"
  by (simp add: py_or_def na_key_def)

lemma missing_county_row:
  assumes "r \<in> set df" and "county_id (fr_profile r) = None"
  shows "\<exists>row\<in>set (snapshot_rows e prev df).
           s_county_id row = PyNaN
           \<and> s_organization_id row = na_key (organization_id (fr_profile r))"
  using group_row_of_entity[OF assms(1), of e prev] assms(2)
  by (auto simp add: missing_key_is_nan)

text \<open>
  C4 on the sample run, whose second profile has no county: the run succeeds and upserts
  two snapshot rows; the row of the group without a county carries \<open>nan\<close> as its county_id
  where the claim expects the string UNKNOWN. The organization of both rows is the
  profiles' own.
\<close>

theorem missing_county_sample_run:
  "map county_id two_profiles = [Some ''county-7'', None]
   \<and> exit_status (run sample_env) = 0
   \<and> (\<exists>rows. (UpsertSnapshots rows, None) \<in> set (written (run sample_env))
         \<and> map s_county_id rows = [PyStr ''county-7'', PyNaN]
         \<and> map s_organization_id rows = [PyStr ''org-1'', PyStr ''org-1''])
   \<and> PyNaN \<noteq> PyStr ''UNKNOWN''"
proof -
  let ?rows = "snapshot_rows sample_env sample_prior sample_frame"
  have "map s_organization_id ?rows = [PyStr ''org-1'', PyStr ''org-1'']"
    by (simp add: snapshot_rows_def sample_groups snapshot_row_ids agg_def)
  with sample_run sample_counties
  have "exit_status (run sample_env) = 0
        \<and> (\<exists>rows. (UpsertSnapshots rows, None) \<in> set (written (run sample_env))
              \<and> map s_county_id rows = [PyStr ''county-7'', PyNaN]
              \<and> map s_organization_id rows = [PyStr ''org-1'', PyStr ''org-1''])"
    by auto
  moreover have "map county_id two_profiles = [Some ''county-7'', None]"
    by (simp add: two_profiles_def sample_profile_def)
  ultimately show ?thesis
    by simp
qed

subsection \<open>Standardization of the feature matrix\<close>

lemma length_prepare_features_row: "length (prepare_features_row p) = 8"
  by (simp add: prepare_features_row_def)

lemma length_fit_transform: "length (fit_transform X) = length X"
  by (simp add: fit_transform_def)

lemma fit_transform_nth:
  assumes "i < length X" and "j < length (X ! i)"
  shows "fit_transform X ! i ! j = (X ! i ! j - mean (column j X)) / scale_of (column j X)"
  using assms by (simp add: fit_transform_def)

lemma column_fit_transform:
  assumes "\<forall>r\<in>set X. j < length r"
  shows "column j (fit_transform X)
           = map (\<lambda>x. (x - mean (column j X)) / scale_of (column j X)) (column j X)"
  using assms by (simp add: column_def fit_transform_def)

lemma scale_of_nonzero: "scale_of xs \<noteq> 0"
  by (simp add: scale_of_def)

lemma sum_list_shift:
  "sum_list (map (\<lambda>x. (x - m) / s) xs) = (sum_list xs - real (length xs) * m) / s"
  by (induction xs) (simp_all add: algebra_simps diff_divide_distrib add_divide_distrib)

lemma mean_centred:
  assumes "xs \<noteq> []"
  shows "mean (map (\<lambda>x. (x - mean xs) / s) xs) = 0"
proof -
  from assms have n: "real (length xs) \<noteq> 0"
    by simp
  then have "real (length xs) * mean xs = sum_list xs"
    by (simp add: mean_def)
  then show ?thesis
    by (simp add: mean_def sum_list_shift)
qed

lemma pvariance_nonneg: "0 \<le> pvariance xs"
  unfolding pvariance_def mean_def
  by (intro divide_nonneg_nonneg sum_list_nonneg) auto

lemma zero_std_constant:
  assumes "xs \<noteq> []" and "pstd xs = 0" and "x \<in> set xs"
  shows "x = mean xs"
proof -
  from assms(2) have "pvariance xs = 0"
    by (simp add: pstd_def)
  with assms(1) have zero: "sum_list (map (\<lambda>x. (x - mean xs)\<^sup>2) xs) = 0"
    by (simp add: pvariance_def mean_def)
  have "\<forall>y\<in>set (map (\<lambda>x. (x - mean xs)\<^sup>2) xs). y = 0"
    using zero by (subst (asm) sum_list_nonneg_eq_0_iff) auto
  with assms(3) have "(x - mean xs)\<^sup>2 = 0"
    by auto
  then show ?thesis
    by simp
qed

lemma sum_list_scaled_squares:
  "sum_list (map (\<lambda>x. ((x - m) / s)\<^sup>2) xs)
     = sum_list (map (\<lambda>x. (x - m)\<^sup>2) xs) / (s::real)\<^sup>2"
  by (induction xs) (simp_all add: power_divide add_divide_distrib)

lemma pstd_standardized:
  assumes "xs \<noteq> []" and "pstd xs \<noteq> 0"
  shows "pstd (map (\<lambda>x. (x - mean xs) / pstd xs) xs) = 1"
proof -
  let ?zs = "map (\<lambda>x. (x - mean xs) / pstd xs) xs"
  have m0: "mean ?zs = 0"
    using assms(1) by (rule mean_centred)
  have sq: "(pstd xs)\<^sup>2 = pvariance xs"
    by (simp add: pstd_def pvariance_nonneg)
  from assms(2) have var: "pvariance xs \<noteq> 0"
    by (simp add: pstd_def)
  have "pvariance ?zs = mean (map (\<lambda>x. ((x - mean xs) / pstd xs)\<^sup>2) xs)"
    by (simp add: pvariance_def m0 comp_def)
  also have "\<dots> = sum_list (map (\<lambda>x. (x - mean xs)\<^sup>2) xs) / (pstd xs)\<^sup>2 / real (length xs)"
    by (simp add: mean_def sum_list_scaled_squares)
  also have "\<dots> = pvariance xs / pvariance xs"
    by (simp add: sq pvariance_def mean_def)
  also have "\<dots> = 1"
    using var by simp
  finally show ?thesis
    by (simp add: pstd_def)
qed

text \<open>
  C6. For a batch of at least one entity and each of the eight feature columns, the
  standardization divides by a scale that is never zero; it returns one row per entity, the
  i-th row computed from the i-th entity's features; a column whose population standard
  deviation is zero comes out as 0 in every row; a column of nonzero variance comes out
  with population mean 0 and population standard deviation 1.
\<close>

theorem standardization:
  assumes "df \<noteq> []" and "j < 8"
  shows
    "(let X = prepare_features df; Z = fit_transform X
      in length Z = length df
         \<and> scale_of (column j X) \<noteq> 0
         \<and> (\<forall>i<length df.
               Z ! i ! j = (prepare_features_row (df ! i) ! j - mean (column j X))
                             / scale_of (column j X))
         \<and> (pstd (column j X) = 0 \<longrightarrow> (\<forall>i<length df. Z ! i ! j = 0))
         \<and> (pstd (column j X) \<noteq> 0 \<longrightarrow> mean (column j Z) = 0 \<and> pstd (column j Z) = 1))"
proof -
  let ?X = "prepare_features df"
  let ?Z = "fit_transform ?X"
  let ?xs = "column j ?X"
  have len: "length ?Z = length df"
    by (simp add: length_fit_transform prepare_features_def)
  have wide: "\<forall>r\<in>set ?X. j < length r"
    using assms(2) by (auto simp add: prepare_features_def length_prepare_features_row)
  have ne: "?xs \<noteq> []"
    using assms(1) by (simp add: column_def prepare_features_def)
  have cell: "?Z ! i ! j = (prepare_features_row (df ! i) ! j - mean ?xs) / scale_of ?xs"
    if "i < length df" for i
  proof -
    from that have "i < length ?X" and "?X ! i = prepare_features_row (df ! i)"
      by (simp_all add: prepare_features_def)
    with assms(2) show ?thesis
      by (simp add: fit_transform_nth length_prepare_features_row)
  qed
  have flat: "?Z ! i ! j = 0" if "pstd ?xs = 0" and "i < length df" for i
  proof -
    from that(2) have "prepare_features_row (df ! i) ! j \<in> set ?xs"
      by (auto simp add: column_def prepare_features_def intro!: image_eqI[of _ _ "df ! i"])
    with ne that(1) have "prepare_features_row (df ! i) ! j = mean ?xs"
      by (rule zero_std_constant)
    with cell[OF that(2)] show ?thesis
      by simp
  qed
  have unit: "mean (column j ?Z) = 0 \<and> pstd (column j ?Z) = 1" if "pstd ?xs \<noteq> 0"
  proof -
    from that have "scale_of ?xs = pstd ?xs"
      by (simp add: scale_of_def)
    with column_fit_transform[OF wide]
    have col: "column j ?Z = map (\<lambda>x. (x - mean ?xs) / pstd ?xs) ?xs"
      by simp
    show ?thesis
      unfolding col using ne that by (simp add: mean_centred pstd_standardized)
  qed
  from len cell flat unit show ?thesis
    unfolding Let_def using scale_of_nonzero[of ?xs] by blast
qed

lemma sample_features:
  "prepare_features (with_scores two_profiles [3, 19 / 5])
     = [[3, 2, 0, 1, 0, 0, 1, 0], [19 / 5, 4, 0, 1, 0, 0, 1, 0]]"
  by (simp add: prepare_features_def prepare_features_row_def with_scores_def two_profiles_def
      sample_profile_def fillna_def astype_int_def)

theorem standardization_witness:
  "with_scores two_profiles [3, 19 / 5] \<noteq> []
   \<and> column 1 (prepare_features (with_scores two_profiles [3, 19 / 5])) = [2, 4]
   \<and> pstd [2, 4] = 1
   \<and> mean (column 1 (fit_transform (prepare_features (with_scores two_profiles [3, 19 / 5])))) = 0
   \<and> pstd (column 1 (fit_transform (prepare_features (with_scores two_profiles [3, 19 / 5])))) = 1
   \<and> pstd (column 2 (prepare_features (with_scores two_profiles [3, 19 / 5]))) = 0
   \<and> fit_transform (prepare_features (with_scores two_profiles [3, 19 / 5])) ! 0 ! 2 = 0
   \<and> fit_transform (prepare_features (with_scores two_profiles [3, 19 / 5])) ! 1 ! 2 = 0"
proof -
  let ?df = "with_scores two_profiles [3, 19 / 5]"
  have ne: "?df \<noteq> []" and two: "length ?df = 2"
    by (simp_all add: with_scores_def two_profiles_def)
  have c1: "column 1 (prepare_features ?df) = [2, 4]"
    and c2: "column 2 (prepare_features ?df) = [0, 0]"
    by (simp_all add: sample_features column_def)
  have s1: "pstd [2, 4] = 1" and s2: "pstd [0, 0] = 0"
    by (simp_all add: pstd_def pvariance_def mean_def)
  have j1: "(1::nat) < 8" and j2: "(2::nat) < 8"
    by simp_all
  note col1 = standardization[OF ne j1, unfolded Let_def c1 s1]
  note col2 = standardization[OF ne j2, unfolded Let_def c2 s2 two]
  from col1[THEN conjunct2, THEN conjunct2, THEN conjunct2, THEN conjunct2]
  have unit: "mean (column 1 (fit_transform (prepare_features ?df))) = 0
              \<and> pstd (column 1 (fit_transform (prepare_features ?df))) = 1"
    by simp
  from col2[THEN conjunct2, THEN conjunct2, THEN conjunct2, THEN conjunct1]
  have flat: "\<forall>i<2. fit_transform (prepare_features ?df) ! i ! 2 = 0"
    by simp
  then have "fit_transform (prepare_features ?df) ! 0 ! 2 = 0"
    and "fit_transform (prepare_features ?df) ! 1 ! 2 = 0"
    by simp_all
  with ne c1 c2 s1 s2 unit show ?thesis
    by simp
qed

end
